theory Spec2Isabelle
  imports Main
begin

section \<open>Values exchanged with the outside\<close>

text \<open>
  The gateway answers with JSON bodies built by \<^verbatim>\<open>res.json\<close>, or hands an upstream
  answer through. A JSON object keeps the order in which its keys were written.
  \<^verbatim>\<open>JSON.stringify\<close> leaves out a key whose value is \<^verbatim>\<open>undefined\<close>; \<open>json\<close> takes the
  fields with an optional value (\<open>None\<close> for \<^verbatim>\<open>undefined\<close>) and drops those.
\<close>

datatype json = JString string | JNumber nat | JObject "(string \<times> json) list"

fun defined_fields :: "(string \<times> json option) list \<Rightarrow> (string \<times> json) list" where
  "defined_fields [] = []"
| "defined_fields ((k, None) # kvs) = defined_fields kvs"
| "defined_fields ((k, Some v) # kvs) = (k, v) # defined_fields kvs"

definition json_object :: "(string \<times> json option) list \<Rightarrow> json" where
  "json_object kvs = JObject (defined_fields kvs)"

datatype payload = Json json | Raw string

record response =
  res_status :: nat
  res_body :: payload

text \<open>
  \<^verbatim>\<open>res.json(obj)\<close> answers 200 unless \<^verbatim>\<open>res.status(n)\<close> came first. A \<open>response\<close> is
  what a handler sends, or what the backend answered; of the answer to a HEAD request
  Node transmits the status and the headers only.
\<close>

definition res_json :: "nat \<Rightarrow> (string \<times> json option) list \<Rightarrow> response" where
  "res_json st kvs = \<lparr>res_status = st, res_body = Json (json_object kvs)\<rparr>"

text \<open>
  A JavaScript error as the handlers read it: \<^verbatim>\<open>err.code\<close> (absent on errors that
  carry none) and \<^verbatim>\<open>err.message\<close>.
\<close>

record js_error =
  err_code :: "string option"
  err_message :: string

text \<open>
  A request as the servers see it: the method, in capitals as Node reports it, the path
  of the URL, and what the JSON body parser makes of the request. The query string takes
  no part in matching and is forwarded as it came, since every rewrite rule is anchored
  at the start of the URL; it is left out. \<^verbatim>\<open>express.json()\<close> belongs to another package:
  what it decides is taken as given, \<open>None\<close> when it passes the request on (no body,
  another content type, or JSON it can read) and \<open>Some err\<close> when it hands the error
  \<open>err\<close> to \<^verbatim>\<open>next\<close> (a body it cannot read).
\<close>

record request =
  req_method :: string
  req_path :: string
  req_json :: "js_error option"

text \<open>
  What a run depends on beyond the request: the clock read by
  \<^verbatim>\<open>new Date().toISOString()\<close>, the backend behind the proxy, and \<^verbatim>\<open>fetch\<close> as the
  diagnostic route calls it (it throws, or resolves to a response whose status is read).
  Asked by the proxy (target, method, path), a backend answers, or the dispatch fails
  with an error, or nothing ever comes back.
\<close>

datatype dispatch = Answered response | Failed js_error | Silent

record world =
  w_now :: string
  w_proxy :: "string \<Rightarrow> string \<Rightarrow> string \<Rightarrow> dispatch"
  w_fetch :: "string \<Rightarrow> js_error + nat"

text \<open>
  The outbound requests a handler issues, in order: a request proxied to a target with
  the method and path the backend receives and the \<^verbatim>\<open>timeout\<close> option in force, or a
  \<^verbatim>\<open>fetch\<close> of a URL with its method and \<^verbatim>\<open>timeout\<close> value.
\<close>

datatype outbound =
  Proxied string string string "nat option"
| Fetched string string nat

text \<open>
  How the exchange with the client ends: a response is sent; or the client's connection
  is closed without one, after the given number of milliseconds; or the request stays
  open and is never answered.
\<close>

datatype answer = Sent response | Dropped nat | Pending

record outcome =
  calls :: "outbound list"
  reply :: answer

section \<open>Configuration\<close>

text \<open>
  \<^verbatim>\<open>process.env.X || dflt\<close>: the default stands in when the variable is unset or empty.
\<close>

record env =
  CLASSIFIER_URL :: "string option"
  PARSER_CLEANER_URL :: "string option"
  RESPONSE_GENERATOR_URL :: "string option"
  COLLECTOR_URL :: "string option"

definition js_or :: "string option \<Rightarrow> string \<Rightarrow> string" where
  "js_or v dflt = (case v of None \<Rightarrow> dflt | Some s \<Rightarrow> if s = [] then dflt else s)"

record service_urls =
  classifier :: string
  parsercleaner :: string
  responsegenerator :: string
  collector :: string

definition SERVICE_URLS :: "env \<Rightarrow> service_urls" where
  "SERVICE_URLS e =
     \<lparr>classifier = js_or (CLASSIFIER_URL e) ''http://classifier.railway.internal:8000'',
      parsercleaner = js_or (PARSER_CLEANER_URL e) ''http://parser_cleaner.railway.internal:8000'',
      responsegenerator =
        js_or (RESPONSE_GENERATOR_URL e) ''http://response_generator.railway.internal:8000'',
      collector = js_or (COLLECTOR_URL e) ''http://lemlist-collector.railway.internal:8000''\<rparr>"

text \<open>
  The options object handed to \<^verbatim>\<open>createProxyMiddleware\<close>. The logging callbacks
  (\<^verbatim>\<open>logger\<close>, \<^verbatim>\<open>onProxyReq\<close>, \<^verbatim>\<open>onProxyRes\<close>) only write to the console and are left
  out. \<open>onError\<close> takes the error and the clock and gives the answer it sends.
\<close>

record proxy_options =
  pathRewrite :: "(string \<times> string) list"
  target :: string
  changeOrigin :: bool
  timeout :: "nat option"
  onError :: "js_error \<Rightarrow> string \<Rightarrow> response"

text \<open>The \<^verbatim>\<open>onError\<close> callback of \<^verbatim>\<open>createProxyConfig(serviceName, target)\<close>.\<close>

definition createProxyConfig_onError :: "string \<Rightarrow> string \<Rightarrow> js_error \<Rightarrow> string \<Rightarrow> response" where
  "createProxyConfig_onError serviceName tgt err tstamp =
     (if err_code err = Some ''ECONNREFUSED'' then
        res_json 503
          [(''error'', Some (JString ''Service Unavailable'')),
           (''message'', Some (JString (serviceName @ '' service is not responding''))),
           (''service'', Some (JString serviceName)),
           (''target'', Some (JString tgt)),
           (''timestamp'', Some (JString tstamp))]
      else if err_code err = Some ''ETIMEDOUT'' then
        res_json 504
          [(''error'', Some (JString ''Gateway Timeout'')),
           (''message'', Some (JString (serviceName @ '' service took too long to respond''))),
           (''service'', Some (JString serviceName))]
      else
        res_json 500
          [(''error'', Some (JString ''Proxy Error'')),
           (''message'', Some (JString (err_message err))),
           (''code'', map_option JString (err_code err)),
           (''service'', Some (JString serviceName))])"

definition createProxyConfig :: "string \<Rightarrow> string \<Rightarrow> proxy_options" where
  "createProxyConfig serviceName tgt =
     \<lparr>pathRewrite = [],
      target = tgt,
      changeOrigin = True,
      timeout = Some 30000,
      onError = createProxyConfig_onError serviceName tgt\<rparr>"

text \<open>The shared \<^verbatim>\<open>proxyOptions\<close> of \<^verbatim>\<open>src/server.js\<close>: one answer for every error.\<close>

definition proxyOptions_onError :: "js_error \<Rightarrow> string \<Rightarrow> response" where
  "proxyOptions_onError err tstamp =
     res_json 500 [(''error'', Some (JString ''Proxy error occurred''))]"

definition proxyOptions :: "string \<Rightarrow> proxy_options" where
  "proxyOptions tgt =
     \<lparr>pathRewrite = [],
      target = tgt,
      changeOrigin = True,
      timeout = None,
      onError = proxyOptions_onError\<rparr>"

section \<open>The proxy middleware\<close>

subsection \<open>Rewriting the path\<close>

text \<open>
  The proxy middleware and the proxy under it (\<^verbatim>\<open>http-proxy-middleware\<close>, \<^verbatim>\<open>http-proxy\<close>)
  are packages the servers import; what follows embeds the part of them the two servers
  drive. The options are read as version 2 of \<^verbatim>\<open>http-proxy-middleware\<close> reads them, the
  version that knows the callbacks \<^verbatim>\<open>onError\<close>, \<^verbatim>\<open>onProxyReq\<close> and \<^verbatim>\<open>onProxyRes\<close> the
  source sets: the rewrite rules apply to the original URL of the request, mount path
  included (which is why every key spells the mount path out), and \<^verbatim>\<open>onError\<close> answers a
  dispatch that fails with an error.

  A key of \<^verbatim>\<open>pathRewrite\<close> is the source text of a regular expression and its value the
  replacement string of \<^verbatim>\<open>String.prototype.replace\<close>. The expressions embedded are a
  caret followed by characters that stand for themselves, each of which may carry one of
  the greedy quantifiers \<^verbatim>\<open>*\<close>, \<^verbatim>\<open>+\<close> and \<^verbatim>\<open>?\<close>; every key of the two servers is of that
  kind. \<open>parse_regex\<close> gives \<open>None\<close> for any other key, and a replacement that holds a
  dollar sign is outside the embedding as well.
\<close>

definition regex_special :: "char list" where
  "regex_special = CHR 0x5C # ''^$.*+?()[]{}|''"

definition regex_literal :: "string \<Rightarrow> bool" where
  "regex_literal s = list_all (\<lambda>x. x \<notin> set regex_special) s"

datatype quantifier = Once | Star | Plus | Opt

fun parse_items :: "string \<Rightarrow> (char \<times> quantifier) list option" where
  "parse_items [] = Some []"
| "parse_items [c] = (if c \<in> set regex_special then None else Some [(c, Once)])"
| "parse_items (c # q # rest) =
     (if c \<in> set regex_special then None
      else if q = CHR ''*'' then map_option (Cons (c, Star)) (parse_items rest)
      else if q = CHR ''+'' then map_option (Cons (c, Plus)) (parse_items rest)
      else if q = CHR ''?'' then map_option (Cons (c, Opt)) (parse_items rest)
      else map_option (Cons (c, Once)) (parse_items (q # rest)))"

fun parse_regex :: "string \<Rightarrow> (char \<times> quantifier) list option" where
  "parse_regex [] = None"
| "parse_regex (c # cs) = (if c = CHR ''^'' then parse_items cs else None)"

text \<open>
  \<open>regex_match items s\<close> is what is left of \<open>s\<close> after the match at its start, found in
  the order JavaScript tries: a quantified character takes as many as it can and gives
  back one at a time.
\<close>

fun regex_match :: "(char \<times> quantifier) list \<Rightarrow> string \<Rightarrow> string option" where
  "regex_match [] s = Some s"
| "regex_match ((a, Once) # items) [] = None"
| "regex_match ((a, Once) # items) (c # cs) = (if a = c then regex_match items cs else None)"
| "regex_match ((a, Plus) # items) [] = None"
| "regex_match ((a, Plus) # items) (c # cs) =
     (if a = c then regex_match ((a, Star) # items) cs else None)"
| "regex_match ((a, Opt) # items) [] = regex_match items []"
| "regex_match ((a, Opt) # items) (c # cs) =
     (if a = c then
        (case regex_match items cs of Some rest \<Rightarrow> Some rest | None \<Rightarrow> regex_match items (c # cs))
      else regex_match items (c # cs))"
| "regex_match ((a, Star) # items) [] = regex_match items []"
| "regex_match ((a, Star) # items) (c # cs) =
     (if a = c then
        (case regex_match ((a, Star) # items) cs of
           Some rest \<Rightarrow> Some rest
         | None \<Rightarrow> regex_match items (c # cs))
      else regex_match items (c # cs))"

text \<open>
  The rewriter takes the first rule whose expression matches and replaces the match; a
  path that no rule matches stays as it is.
\<close>

fun rewritePath :: "(string \<times> string) list \<Rightarrow> string \<Rightarrow> string option" where
  "rewritePath [] pth = Some pth"
| "rewritePath ((key, val) # rules) pth =
     (case parse_regex key of
        None \<Rightarrow> None
      | Some items \<Rightarrow>
          (case regex_match items pth of
             None \<Rightarrow> rewritePath rules pth
           | Some rest \<Rightarrow> if CHR ''$'' \<in> set val then None else Some (val @ rest)))"

subsection \<open>The path the backend receives\<close>

text \<open>
  \<^verbatim>\<open>http-proxy\<close> parses the target and the rewritten URL with \<^verbatim>\<open>url.parse\<close> and joins the
  target's path with the request's (\<^verbatim>\<open>common.urlJoin\<close>): the parts that are not empty are
  joined with a slash, every run of slashes becomes one slash, and the first \<^verbatim>\<open>http:/\<close>
  and the first \<^verbatim>\<open>https:/\<close> get their second slash back.

  Embedded are targets that are a base URL (scheme \<^verbatim>\<open>http\<close> or \<^verbatim>\<open>https\<close>, a host name, an
  optional port, an optional final slash), whose path is \<^verbatim>\<open>/\<close>, and request paths free of
  the characters at which \<^verbatim>\<open>url.parse\<close> rewrites, cuts or looks for a host (\<open>url_rewritten\<close>:
  backslash, quotes, backquote, white space, braces, bar, caret, angle brackets, hash,
  question mark, at sign). Anything else is outside the embedding.
\<close>

fun strip_literal :: "string \<Rightarrow> string \<Rightarrow> string option" where
  "strip_literal [] rest = Some rest"
| "strip_literal (p # ps) [] = None"
| "strip_literal (p # ps) (c # cs) = (if p = c then strip_literal ps cs else None)"

definition host_chars :: "char list" where
  "host_chars = ''abcdefghijklmnopqrstuvwxyzABCDEFGHIJKLMNOPQRSTUVWXYZ0123456789.-_''"

definition port_ok :: "string \<Rightarrow> bool" where
  "port_ok s =
     (case s of
        [] \<Rightarrow> False
      | c # ds \<Rightarrow>
          c = CHR '':'' \<and> takeWhile (\<lambda>d. d \<in> set ''0123456789'') ds \<noteq> [] \<and>
          dropWhile (\<lambda>d. d \<in> set ''0123456789'') ds \<in> {[], ''/''})"

definition base_url :: "string \<Rightarrow> bool" where
  "base_url t =
     (case (case strip_literal ''http://'' t of
              Some r \<Rightarrow> Some r
            | None \<Rightarrow> strip_literal ''https://'' t) of
        None \<Rightarrow> False
      | Some r \<Rightarrow>
          takeWhile (\<lambda>c. c \<in> set host_chars) r \<noteq> [] \<and>
          length (takeWhile (\<lambda>c. c \<in> set host_chars) r) \<le> 63 \<and>
          (dropWhile (\<lambda>c. c \<in> set host_chars) r \<in> {[], ''/''} \<or>
           port_ok (dropWhile (\<lambda>c. c \<in> set host_chars) r)))"

definition url_rewritten :: "char list" where
  "url_rewritten =
     [CHR 0x5C, CHR 0x22, CHR 0x27, CHR 0x60, CHR 0x20, CHR 0x09, CHR 0x0A, CHR 0x0D] @
     ''{}|^<>#?@''"

definition url_verbatim :: "string \<Rightarrow> bool" where
  "url_verbatim s = list_all (\<lambda>x. x \<notin> set url_rewritten) s"

fun collapse_slashes :: "string \<Rightarrow> string" where
  "collapse_slashes [] = []"
| "collapse_slashes [c] = [c]"
| "collapse_slashes (a # b # cs) =
     (if a = CHR ''/'' \<and> b = CHR ''/'' then collapse_slashes (b # cs)
      else a # collapse_slashes (b # cs))"

fun replace_first :: "string \<Rightarrow> string \<Rightarrow> string \<Rightarrow> string" where
  "replace_first pat rep [] = (if pat = [] then rep else [])"
| "replace_first pat rep (c # cs) =
     (case strip_literal pat (c # cs) of
        Some rest \<Rightarrow> rep @ rest
      | None \<Rightarrow> c # replace_first pat rep cs)"

definition urlJoin :: "string \<Rightarrow> string \<Rightarrow> string" where
  "urlJoin a b =
     replace_first ''https:/'' ''https://''
       (replace_first ''http:/'' ''http://''
          (collapse_slashes (if a = [] then b else if b = [] then a else a @ ''/'' @ b)))"

section \<open>Express routing\<close>

text \<open>
  Express compares paths without regard to the case of ASCII letters (the setting
  \<^verbatim>\<open>case sensitive routing\<close> is off unless enabled, and neither server enables it).
\<close>

definition to_lower :: "char \<Rightarrow> char" where
  "to_lower c =
     (case map_of (zip ''ABCDEFGHIJKLMNOPQRSTUVWXYZ'' ''abcdefghijklmnopqrstuvwxyz'') c of
        None \<Rightarrow> c
      | Some d \<Rightarrow> d)"

text \<open>
  \<^verbatim>\<open>app.use(p, ...)\<close> with a literal mount path \<open>p\<close>: Express 4 compiles \<open>p\<close> to the
  expression \<^verbatim>\<open>^p/?(?=/|$)\<close> with the flag \<^verbatim>\<open>i\<close>, so the layer matches when the request
  path starts with \<open>p\<close>, the case of letters ignored, and goes on with a slash or ends
  there. (The mount path \<^verbatim>\<open>'*'\<close> of the 404 layer only works in Express 4.)
\<close>

fun mount_match :: "string \<Rightarrow> string \<Rightarrow> bool" where
  "mount_match [] rest = (case rest of [] \<Rightarrow> True | c # _ \<Rightarrow> c = CHR ''/'')"
| "mount_match (p # ps) [] = False"
| "mount_match (p # ps) (c # cs) = (to_lower p = to_lower c \<and> mount_match ps cs)"

text \<open>
  \<^verbatim>\<open>app.get(p, ...)\<close> with a literal path compiles to \<^verbatim>\<open>^p/?$\<close> with the flag \<^verbatim>\<open>i\<close>: the
  whole request path is \<open>p\<close>, the case of letters ignored, with or without one trailing
  slash (\<^verbatim>\<open>strict routing\<close> is off as well).
\<close>

fun route_match :: "string \<Rightarrow> string \<Rightarrow> bool" where
  "route_match [] rest = (rest = [] \<or> rest = ''/'')"
| "route_match (p # ps) [] = False"
| "route_match (p # ps) (c # cs) = (to_lower p = to_lower c \<and> route_match ps cs)"

text \<open>
  A layer mounted at \<^verbatim>\<open>'*'\<close> matches every path and keeps the decoded path as a
  parameter: \<^verbatim>\<open>decodeURIComponent\<close> is applied to the path, and when that throws the layer
  does not run and the error is kept for the error-handling middleware. The function
  throws on a percent sign that is not followed by two hexadecimal digits and on escaped
  bytes that are not well-formed UTF-8. \<open>uri_decodable\<close> reads the path with the automaton
  below: \<open>Idle\<close> between escapes, \<open>Lead1\<close> and \<open>Lead2\<close> inside the escape of a first byte,
  and \<open>Cont0 n lo hi\<close>, \<open>Cont1\<close>, \<open>Cont2\<close> while \<open>n\<close> more escaped bytes are due, the next one
  between \<open>lo\<close> and \<open>hi\<close>.
\<close>

datatype decode_state =
  Idle | Lead1 | Lead2 nat
| Cont0 nat nat nat | Cont1 nat nat nat | Cont2 nat nat nat nat
| Malformed

definition hex_value :: "char \<Rightarrow> nat option" where
  "hex_value c =
     map_of (zip ''0123456789abcdefABCDEF''
       [0, 1, 2, 3, 4, 5, 6, 7, 8, 9, 10, 11, 12, 13, 14, 15, 10, 11, 12, 13, 14, 15]) c"

definition after_lead :: "nat \<Rightarrow> decode_state" where
  "after_lead b =
     (if b < 0x80 then Idle
      else if 0xC2 \<le> b \<and> b \<le> 0xDF then Cont0 1 0x80 0xBF
      else if b = 0xE0 then Cont0 2 0xA0 0xBF
      else if b = 0xED then Cont0 2 0x80 0x9F
      else if 0xE1 \<le> b \<and> b \<le> 0xEF then Cont0 2 0x80 0xBF
      else if b = 0xF0 then Cont0 3 0x90 0xBF
      else if 0xF1 \<le> b \<and> b \<le> 0xF3 then Cont0 3 0x80 0xBF
      else if b = 0xF4 then Cont0 3 0x80 0x8F
      else Malformed)"

definition after_cont :: "nat \<Rightarrow> nat \<Rightarrow> nat \<Rightarrow> nat \<Rightarrow> decode_state" where
  "after_cont n lo hi b =
     (if lo \<le> b \<and> b \<le> hi then (if n \<le> 1 then Idle else Cont0 (n - 1) 0x80 0xBF)
      else Malformed)"

fun decode_step :: "decode_state \<Rightarrow> char \<Rightarrow> decode_state" where
  "decode_step Idle c = (if c = CHR ''%'' then Lead1 else Idle)"
| "decode_step Lead1 c = (case hex_value c of None \<Rightarrow> Malformed | Some h \<Rightarrow> Lead2 h)"
| "decode_step (Lead2 h) c =
     (case hex_value c of None \<Rightarrow> Malformed | Some l \<Rightarrow> after_lead (16 * h + l))"
| "decode_step (Cont0 n lo hi) c = (if c = CHR ''%'' then Cont1 n lo hi else Malformed)"
| "decode_step (Cont1 n lo hi) c =
     (case hex_value c of None \<Rightarrow> Malformed | Some h \<Rightarrow> Cont2 n lo hi h)"
| "decode_step (Cont2 n lo hi h) c =
     (case hex_value c of None \<Rightarrow> Malformed | Some l \<Rightarrow> after_cont n lo hi (16 * h + l))"
| "decode_step Malformed c = Malformed"

definition uri_decodable :: "string \<Rightarrow> bool" where
  "uri_decodable s = (foldl decode_step Idle s = Idle)"

definition decode_error :: "string \<Rightarrow> js_error" where
  "decode_error pth =
     \<lparr>err_code = None,
      err_message = ''Failed to decode param '' @ [CHR 0x27] @ pth @ [CHR 0x27]\<rparr>"

text \<open>
  The handlers the servers register, and the layers that hold them: a function used
  without a path (\<^verbatim>\<open>app.use(fn)\<close>), a function mounted at a path, a GET route, and the
  error-handling middleware, the function of four arguments registered last.
\<close>

datatype handler =
  Cors | Json_body | Logging | Proxy proxy_options | Health string | Diagnostic | NotFound

datatype layer =
  Middleware handler
| Use string handler
| Get string handler
| Error_middleware "js_error \<Rightarrow> response"

datatype matched = Match | No_match | Match_error js_error

text \<open>
  A route registered with \<^verbatim>\<open>app.get\<close> serves GET, and HEAD as well when no HEAD route is
  registered.
\<close>

fun layer_match :: "layer \<Rightarrow> request \<Rightarrow> matched" where
  "layer_match (Middleware h) r = Match"
| "layer_match (Error_middleware f) r = Match"
| "layer_match (Use p h) r =
     (if p = ''*'' then
        (if uri_decodable (req_path r) then Match else Match_error (decode_error (req_path r)))
      else if mount_match p (req_path r) then Match
      else No_match)"
| "layer_match (Get p h) r =
     (if (req_method r = ''GET'' \<or> req_method r = ''HEAD'') \<and> route_match p (req_path r)
      then Match else No_match)"

section \<open>Handlers\<close>

text \<open>
  What lies outside the embedding is a result of its own: a rewrite rule, a target or a
  request path outside the fragments above, and a request that no layer answers (Express
  then answers by itself).
\<close>

datatype unmodelled =
  Unsupported_rewrite | Unsupported_target | Unsupported_path | Stack_exhausted

text \<open>
  A handler ends the exchange, or passes the request on with \<^verbatim>\<open>next()\<close>, or passes an
  error on with \<^verbatim>\<open>next(err)\<close>.
\<close>

datatype step = Done outcome | Next | Next_error js_error | Outside unmodelled

text \<open>
  \<^verbatim>\<open>cors(...)\<close> with the options of the servers (an origin and \<^verbatim>\<open>credentials\<close>; the status
  204 and \<^verbatim>\<open>preflightContinue: false\<close> are the package's defaults): an OPTIONS request is
  taken for a preflight and answered on the spot with 204 and no body; any other request
  is passed on. The headers it sets are not part of a \<open>response\<close> here.
\<close>

definition cors :: "request \<Rightarrow> step" where
  "cors r =
     (if req_method r = ''OPTIONS''
      then Done \<lparr>calls = [], reply = Sent \<lparr>res_status = 204, res_body = Raw ''''\<rparr>\<rparr>
      else Next)"

definition express_json :: "request \<Rightarrow> step" where
  "express_json r = (case req_json r of None \<Rightarrow> Next | Some err \<Rightarrow> Next_error err)"

text \<open>
  The proxy middleware rewrites the path of the original URL and dispatches the request
  to the target. The backend's answer is handed through; an error goes to \<open>onError\<close>.
  When nothing comes back, no error is raised and \<open>onError\<close> is not called: the option
  \<^verbatim>\<open>timeout\<close> is the idle timeout of the client's socket, which closes the connection when
  it expires; without the option the request stays open.
\<close>

definition proxy_middleware :: "world \<Rightarrow> proxy_options \<Rightarrow> request \<Rightarrow> unmodelled + outcome" where
  "proxy_middleware w opts r =
     (case rewritePath (pathRewrite opts) (req_path r) of
        None \<Rightarrow> Inl Unsupported_rewrite
      | Some p \<Rightarrow>
          if \<not> base_url (target opts) then Inl Unsupported_target
          else if \<not> url_verbatim p then Inl Unsupported_path
          else
            Inr \<lparr>calls = [Proxied (target opts) (req_method r) (urlJoin ''/'' p) (timeout opts)],
                 reply =
                   (case w_proxy w (target opts) (req_method r) (urlJoin ''/'' p) of
                      Answered resp \<Rightarrow> Sent resp
                    | Failed err \<Rightarrow> Sent (onError opts err (w_now w))
                    | Silent \<Rightarrow>
                        (case timeout opts of Some ms \<Rightarrow> Dropped ms | None \<Rightarrow> Pending))\<rparr>)"

text \<open>
  The health route. The two servers differ in one label of the static table only
  (the collector's), which the handler takes as \<open>collector_label\<close>.
\<close>

definition health :: "string \<Rightarrow> world \<Rightarrow> outcome" where
  "health collector_label w =
     \<lparr>calls = [],
      reply =
        Sent (res_json 200
          [(''status'', Some (JString ''OK'')),
           (''timestamp'', Some (JString (w_now w))),
           (''services'',
              Some (json_object
                [(''classifier'', Some (JString ''http://classifier.railway.internal'')),
                 (''parsercleaner'', Some (JString ''http://parser_cleaner.railway.internal'')),
                 (''responsegenerator'',
                    Some (JString ''http://response_generator.railway.internal'')),
                 (''collector'', Some (JString collector_label))]))])\<rparr>"

definition not_found :: outcome where
  "not_found =
     \<lparr>calls = [], reply = Sent (res_json 404 [(''error'', Some (JString ''Route not found''))])\<rparr>"

text \<open>The error-handling middleware: the answer to an error passed to \<^verbatim>\<open>next\<close>.\<close>

definition global_error_handler :: "js_error \<Rightarrow> response" where
  "global_error_handler err = res_json 500 [(''error'', Some (JString ''Internal server error''))]"

text \<open>
  The diagnostic route walks \<^verbatim>\<open>Object.entries(servicesWithPort)\<close> in order, awaits one
  \<^verbatim>\<open>fetch\<close> per entry and stores what it saw under the entry's name.
\<close>

definition servicesWithPort :: "(string \<times> string) list" where
  "servicesWithPort =
     [(''collector-8000'', ''http://lemlist-collector.railway.internal:8000''),
      (''collector-3000'', ''http://lemlist-collector.railway.internal:3000''),
      (''collector-no-port'', ''http://lemlist-collector.railway.internal'')]"

fun set_field :: "string \<Rightarrow> json \<Rightarrow> (string \<times> json) list \<Rightarrow> (string \<times> json) list" where
  "set_field k v [] = [(k, v)]"
| "set_field k v ((k', v') # kvs) = (if k' = k then (k, v) # kvs else (k', v') # set_field k v kvs)"

definition testResults :: "world \<Rightarrow> string \<Rightarrow> json" where
  "testResults w url =
     (case w_fetch w (url @ ''/status'') of
        Inr st \<Rightarrow>
          json_object
            [(''status'',
                Some (json_object
                  [(''status'', Some (JString ''reachable'')),
                   (''statusCode'', Some (JNumber st)),
                   (''url'', Some (JString (url @ ''/status'')))]))]
      | Inl err \<Rightarrow>
          json_object
            [(''status'',
                Some (json_object
                  [(''status'', Some (JString ''unreachable'')),
                   (''error'', Some (JString (err_message err))),
                   (''code'', map_option JString (err_code err)),
                   (''url'', Some (JString (url @ ''/status'')))]))])"

fun diagnostic_loop ::
  "world \<Rightarrow> (string \<times> string) list \<Rightarrow> outbound list \<Rightarrow> (string \<times> json) list
     \<Rightarrow> outbound list \<times> (string \<times> json) list" where
  "diagnostic_loop w [] cs results = (cs, results)"
| "diagnostic_loop w ((name, url) # rest) cs results =
     diagnostic_loop w rest
       (cs @ [Fetched (url @ ''/status'') ''GET'' 5000])
       (set_field name (testResults w url) results)"

definition diagnostic :: "world \<Rightarrow> outcome" where
  "diagnostic w =
     (case diagnostic_loop w servicesWithPort [] [] of
        (cs, results) \<Rightarrow>
          \<lparr>calls = cs,
           reply =
             Sent (res_json 200
               [(''timestamp'', Some (JString (w_now w))),
                (''serviceTests'', Some (JObject results)),
                (''note'',
                   Some (JString ''Testing different ports for Railway internal networking''))])\<rparr>)"

fun run_handler :: "world \<Rightarrow> handler \<Rightarrow> request \<Rightarrow> step" where
  "run_handler w Cors r = cors r"
| "run_handler w Json_body r = express_json r"
| "run_handler w Logging r = Next"
| "run_handler w (Proxy opts) r =
     (case proxy_middleware w opts r of Inl u \<Rightarrow> Outside u | Inr out \<Rightarrow> Done out)"
| "run_handler w (Health collector_label) r = Done (health collector_label w)"
| "run_handler w Diagnostic r = Done (diagnostic w)"
| "run_handler w NotFound r = Done not_found"

section \<open>The two servers\<close>

text \<open>
  Express walks the layers in the order of registration. While no error is pending, the
  first layer that matches runs; if its handler passes the request on, the walk goes
  on behind it, and the error-handling middleware is skipped. Once an error is pending
  (a handler passed one on, or matching a layer threw), every layer is skipped up to the
  error-handling middleware, which answers it; the first error is the one kept.
  \<open>Stack_exhausted\<close> stands for Express's own answer when the walk runs off the end.
\<close>

fun run_layer :: "world \<Rightarrow> layer \<Rightarrow> request \<Rightarrow> step" where
  "run_layer w (Middleware h) r = run_handler w h r"
| "run_layer w (Use p h) r = run_handler w h r"
| "run_layer w (Get p h) r = run_handler w h r"
| "run_layer w (Error_middleware f) r = Next"

fun on_error :: "layer \<Rightarrow> js_error \<Rightarrow> outcome option" where
  "on_error (Error_middleware f) err = Some \<lparr>calls = [], reply = Sent (f err)\<rparr>"
| "on_error (Middleware h) err = None"
| "on_error (Use p h) err = None"
| "on_error (Get p h) err = None"

fun walk :: "world \<Rightarrow> layer list \<Rightarrow> js_error option \<Rightarrow> request \<Rightarrow> unmodelled + outcome" where
  "walk w [] pending r = Inl Stack_exhausted"
| "walk w (l # ls) pending r =
     (case layer_match l r of
        No_match \<Rightarrow> walk w ls pending r
      | Match_error e \<Rightarrow> walk w ls (Some (case pending of None \<Rightarrow> e | Some first \<Rightarrow> first)) r
      | Match \<Rightarrow>
          (case pending of
             Some err \<Rightarrow>
               (case on_error l err of Some out \<Rightarrow> Inr out | None \<Rightarrow> walk w ls pending r)
           | None \<Rightarrow>
               (case run_layer w l r of
                  Done out \<Rightarrow> Inr out
                | Next \<Rightarrow> walk w ls None r
                | Next_error err \<Rightarrow> walk w ls (Some err) r
                | Outside u \<Rightarrow> Inl u)))"

definition handle :: "world \<Rightarrow> layer list \<Rightarrow> request \<Rightarrow> unmodelled + outcome" where
  "handle w ls r = walk w ls None r"

text \<open>The larger server: targets from the environment, one configuration per service.\<close>

definition app :: "env \<Rightarrow> layer list" where
  "app e =
     [Middleware Cors,
      Middleware Json_body,
      Middleware Logging,
      Use ''/api/classify''
        (Proxy ((createProxyConfig ''classifier'' (classifier (SERVICE_URLS e)))
                  \<lparr>pathRewrite := [(''^/api/classify'', '''')]\<rparr>)),
      Use ''/api/clean''
        (Proxy ((createProxyConfig ''parser-cleaner'' (parsercleaner (SERVICE_URLS e)))
                  \<lparr>pathRewrite := [(''^/api/clean'', '''')]\<rparr>)),
      Use ''/api/generate''
        (Proxy ((createProxyConfig ''response-generator'' (responsegenerator (SERVICE_URLS e)))
                  \<lparr>pathRewrite := [(''^/api/generate'', '''')]\<rparr>)),
      Use ''/api/collect''
        (Proxy ((createProxyConfig ''collector-collect'' (collector (SERVICE_URLS e)))
                  \<lparr>pathRewrite := [(''^/api/collect'', ''/collect'')]\<rparr>)),
      Use ''/api/companies''
        (Proxy ((createProxyConfig ''collector-companies'' (collector (SERVICE_URLS e)))
                  \<lparr>pathRewrite := [(''^/api/companies'', ''/companies'')]\<rparr>)),
      Use ''/api''
        (Proxy ((createProxyConfig ''collector-catchall'' (collector (SERVICE_URLS e)))
                  \<lparr>pathRewrite := [(''^/api'', '''')]\<rparr>)),
      Get ''/health'' (Health ''lemlist-collector.railway.internal''),
      Get ''/diagnostic'' Diagnostic,
      Use ''*'' NotFound,
      Error_middleware global_error_handler]"

text \<open>\<^verbatim>\<open>src/server.js\<close>: fixed targets, the shared \<^verbatim>\<open>proxyOptions\<close>, no diagnostic route.\<close>

definition server_js_app :: "layer list" where
  "server_js_app =
     [Middleware Cors,
      Middleware Json_body,
      Use ''/api/classify''
        (Proxy ((proxyOptions ''http://classifier.railway.internal'')
                  \<lparr>pathRewrite := [(''^/api/classify'', '''')]\<rparr>)),
      Use ''/api/clean''
        (Proxy ((proxyOptions ''http://parser_cleaner.railway.internal'')
                  \<lparr>pathRewrite := [(''^/api/clean'', '''')]\<rparr>)),
      Use ''/api/generate''
        (Proxy ((proxyOptions ''http://response_generator.railway.internal'')
                  \<lparr>pathRewrite := [(''^/api/generate'', '''')]\<rparr>)),
      Use ''/api''
        (Proxy ((proxyOptions ''http://lemlist-collector.railway.internal'')
                  \<lparr>pathRewrite := [(''^/api'', '''')]\<rparr>)),
      Get ''/health'' (Health ''http://lemlist-collector.railway.internal''),
      Use ''*'' NotFound,
      Error_middleware global_error_handler]"

section \<open>Reading a reply; sample inputs\<close>

text \<open>\<open>body_field k resp\<close> is the value under key \<open>k\<close> when the body is a JSON object.\<close>

definition body_field :: "string \<Rightarrow> response \<Rightarrow> json option" where
  "body_field k resp = (case res_body resp of Json (JObject kvs) \<Rightarrow> map_of kvs k | _ \<Rightarrow> None)"

text \<open>
  Inputs for the concrete instances below: an environment that sets no target, and
  worlds whose backend and \<^verbatim>\<open>fetch\<close> always fail with a given error, always answer, or
  (the backend) never answer.
\<close>

definition env_unset :: env where
  "env_unset =
     \<lparr>CLASSIFIER_URL = None, PARSER_CLEANER_URL = None,
      RESPONSE_GENERATOR_URL = None, COLLECTOR_URL = None\<rparr>"

definition world_failing :: "js_error \<Rightarrow> world" where
  "world_failing err =
     \<lparr>w_now = ''2024-01-01T00:00:00.000Z'',
      w_proxy = (\<lambda>tgt m p. Failed err),
      w_fetch = (\<lambda>url. Inl err)\<rparr>"

definition world_answering :: world where
  "world_answering =
     \<lparr>w_now = ''2024-01-01T00:00:00.000Z'',
      w_proxy = (\<lambda>tgt m p. Answered \<lparr>res_status = 200, res_body = Raw ''{}''\<rparr>),
      w_fetch = (\<lambda>url. Inr 200)\<rparr>"

definition world_silent :: world where
  "world_silent =
     \<lparr>w_now = ''2024-01-01T00:00:00.000Z'',
      w_proxy = (\<lambda>tgt m p. Silent),
      w_fetch = (\<lambda>url. Inr 200)\<rparr>"



section \<open>Facts about the rewriter and the matcher\<close>

lemmas sample_defs = env_unset_def world_failing_def world_answering_def world_silent_def

lemmas config_defs =
  app_def server_js_app_def createProxyConfig_def proxyOptions_def SERVICE_URLS_def js_or_def

lemmas match_defs =
  to_lower_def regex_literal_def regex_special_def uri_decodable_def hex_value_def
  after_lead_def after_cont_def

lemmas proxy_defs =
  proxy_middleware_def base_url_def port_ok_def host_chars_def url_verbatim_def
  url_rewritten_def urlJoin_def

lemmas reply_defs =
  createProxyConfig_onError_def proxyOptions_onError_def res_json_def json_object_def
  health_def not_found_def global_error_handler_def cors_def express_json_def

lemmas run_defs = handle_def sample_defs config_defs match_defs proxy_defs reply_defs

lemma strip_literal_append: "strip_literal p (p @ s) = Some s"
  by (induction p) simp_all

lemma parse_items_literal:
  "regex_literal p \<Longrightarrow> parse_items p = Some (map (\<lambda>c. (c, Once)) p)"
proof (induction p rule: parse_items.induct)
  case 1
  show ?case by simp
next
  case (2 c)
  then show ?case by (simp add: regex_literal_def)
next
  case (3 c q rest)
  from "3.prems" have c: "c \<notin> set regex_special" and q: "q \<notin> set regex_special"
    and rest: "regex_literal (q # rest)"
    by (simp_all add: regex_literal_def)
  from q have "q \<noteq> CHR ''*''" "q \<noteq> CHR ''+''" "q \<noteq> CHR ''?''"
    by (auto simp: regex_special_def)
  with c rest "3.IH"(4) show ?case by simp
qed

lemma regex_match_literal: "regex_match (map (\<lambda>c. (c, Once)) p) (p @ s) = Some s"
  by (induction p) simp_all

lemma rewritePath_literal:
  assumes "regex_literal lit" and "CHR ''$'' \<notin> set val"
  shows "rewritePath [(CHR ''^'' # lit, val)] (lit @ s) = Some (val @ s)"
  using assms by (simp add: parse_items_literal regex_match_literal)

lemma rewritePath_total:
  assumes "regex_literal lit" and "CHR ''$'' \<notin> set val"
  shows "\<exists>p. rewritePath [(CHR ''^'' # lit, val)] pth = Some p"
  using assms by (simp add: parse_items_literal split: option.splits)

lemma mount_match_append: "mount_match p (p @ s) = (s = [] \<or> hd s = CHR ''/'')"
  by (induction p) (simp_all split: list.splits)

text \<open>
  \<open>mount_match\<close> is the regular expression Express builds for a literal mount path:
  the path has a prefix equal to it up to the case of letters, and what follows is empty
  or starts with a slash.
\<close>

lemma mount_match_iff:
  "mount_match p s \<longleftrightarrow>
     (\<exists>a rest. s = a @ rest \<and> map to_lower a = map to_lower p \<and>
        (rest = [] \<or> hd rest = CHR ''/''))"
proof (induction p s rule: mount_match.induct)
  case (1 rest)
  then show ?case by (cases rest) auto
next
  case (2 p ps)
  then show ?case by simp
next
  case (3 p ps c cs)
  show ?case
  proof
    assume "mount_match (p # ps) (c # cs)"
    then have h: "to_lower p = to_lower c" "mount_match ps cs" by simp_all
    then obtain a rest where
      "cs = a @ rest" "map to_lower a = map to_lower ps" "rest = [] \<or> hd rest = CHR ''/''"
      using 3 by blast
    then have "c # cs = (c # a) @ rest \<and> map to_lower (c # a) = map to_lower (p # ps) \<and>
        (rest = [] \<or> hd rest = CHR ''/'')"
      using h by simp
    then show "\<exists>a rest. c # cs = a @ rest \<and> map to_lower a = map to_lower (p # ps) \<and>
        (rest = [] \<or> hd rest = CHR ''/'')"
      by blast
  next
    assume "\<exists>a rest. c # cs = a @ rest \<and> map to_lower a = map to_lower (p # ps) \<and>
        (rest = [] \<or> hd rest = CHR ''/'')"
    then obtain a rest where ar:
      "c # cs = a @ rest" "map to_lower a = map to_lower (p # ps)" "rest = [] \<or> hd rest = CHR ''/''"
      by blast
    then obtain a' where a': "a = c # a'" by (cases a) auto
    with ar have "cs = a' @ rest" "map to_lower a' = map to_lower ps" "to_lower c = to_lower p"
      by auto
    with ar(3) 3 show "mount_match (p # ps) (c # cs)" by auto
  qed
qed

lemma to_lower_slash: "to_lower c = CHR ''/'' \<longleftrightarrow> c = CHR ''/''"
  by (auto simp: to_lower_def split: if_splits)

lemma mount_match_longer:
  "mount_match (p @ CHR ''/'' # q) s \<Longrightarrow> mount_match p s"
proof (induction p arbitrary: s)
  case Nil
  then obtain c cs where s: "s = c # cs" "to_lower CHR ''/'' = to_lower c"
    by (cases s) auto
  have "to_lower CHR ''/'' = CHR ''/''"
    by (simp add: to_lower_def)
  with s(2) have "to_lower c = CHR ''/''" by simp
  then have "c = CHR ''/''" by (simp only: to_lower_slash)
  with s(1) show ?case by simp
next
  case (Cons x xs)
  then show ?case by (cases s) auto
qed

section \<open>Facts about the walk\<close>



lemma diagnostic_calls:
  "calls (diagnostic w) =
     [Fetched ''http://lemlist-collector.railway.internal:8000/status'' ''GET'' 5000,
      Fetched ''http://lemlist-collector.railway.internal:3000/status'' ''GET'' 5000,
      Fetched ''http://lemlist-collector.railway.internal/status'' ''GET'' 5000]"
  by (simp add: diagnostic_def servicesWithPort_def split: prod.splits)








section \<open>The path rewriter\<close>

text \<open>
  The claim C2 as stated fails: it speaks of every prefix, and the key is a regular
  expression. With the prefix \<^verbatim>\<open>/a+b\<close> the rule \<^verbatim>\<open>'^/a+b' -> ''\<close> does not match the path
  \<^verbatim>\<open>/a+b/x\<close> (the expression asks for one or more \<^verbatim>\<open>a\<close> and then \<^verbatim>\<open>b\<close>), so the path stays as it
  is and is not rewritten to \<^verbatim>\<open>/x\<close>.
\<close>

theorem rewrite_prefix_counterexample:
  "rewritePath [(''^'' @ ''/a+b'', '''')] (''/a+b'' @ ''/x'') = Some ''/a+b/x'' \<and>
   rewritePath [(''^'' @ ''/a+b'', '''')] (''/a+b'' @ ''/x'') \<noteq> Some ''/x''"
  by (simp add: regex_special_def)

text \<open>
  C2, as the code has it. For every prefix made of characters that stand for themselves
  in a regular expression, and every suffix: the rule \<^verbatim>\<open>'^' + prefix\<close> with replacement
  \<^verbatim>\<open>""\<close> rewrites \<open>prefix @ suffix\<close> to \<open>suffix\<close>, and with replacement \<^verbatim>\<open>"/x"\<close> to
  \<open>''/x'' @ suffix\<close>; so do the configured rules \<^verbatim>\<open>'^/api/classify' -> ''\<close> and
  \<^verbatim>\<open>'^/api/collect' -> '/collect'\<close>.
\<close>

theorem rewrite_prefix:
  assumes "regex_literal prefix"
  shows "rewritePath [(''^'' @ prefix, '''')] (prefix @ suffix) = Some suffix \<and>
    rewritePath [(''^'' @ prefix, ''/x'')] (prefix @ suffix) = Some (''/x'' @ suffix) \<and>
    rewritePath [(''^/api/classify'', '''')] (''/api/classify'' @ suffix) = Some suffix \<and>
    rewritePath [(''^/api/collect'', ''/collect'')] (''/api/collect'' @ suffix) =
      Some (''/collect'' @ suffix)"
proof -
  have k: "regex_literal ''/api/classify''" "regex_literal ''/api/collect''"
    by (simp_all add: regex_literal_def regex_special_def)
  show ?thesis
    using rewritePath_literal [OF assms, of "''''" suffix]
      rewritePath_literal [OF assms, of "''/x''" suffix]
      rewritePath_literal [OF k(1), of "''''" suffix]
      rewritePath_literal [OF k(2), of "''/collect''" suffix]
    by simp
qed

theorem rewrite_prefix_witness:
  "regex_literal ''/api/companies'' \<and>
   rewritePath [(''^/api/companies'', '''')] ''/api/companies/42'' = Some ''/42'' \<and>
   rewritePath [(''^/api/companies'', ''/x'')] ''/api/companies/42'' = Some ''/x/42''"
proof -
  have h: "regex_literal ''/api/companies''"
    by (simp add: regex_literal_def regex_special_def)
  show ?thesis using h rewrite_prefix [OF h, of "''/42''"] by simp
qed

section \<open>Failures of the backend\<close>









text \<open>
  The claim C6 as stated fails: for an error code other than ECONNREFUSED and ETIMEDOUT
  the body carries the text of the transport error, here \<^verbatim>\<open>socket hang up\<close>, as its
  message.
\<close>

theorem failure_bodies_counterexample:
  "handle (world_failing \<lparr>err_code = Some ''ECONNRESET'', err_message = ''socket hang up''\<rparr>)
      (app env_unset) \<lparr>req_method = ''GET'', req_path = ''/api/classify/x'', req_json = None\<rparr> =
    Inr \<lparr>calls = [Proxied ''http://classifier.railway.internal:8000'' ''GET'' ''/x'' (Some 30000)],
         reply =
           Sent \<lparr>res_status = 500,
                 res_body = Json (JObject
                   [(''error'', JString ''Proxy Error''),
                    (''message'', JString ''socket hang up''),
                    (''code'', JString ''ECONNRESET''),
                    (''service'', JString ''classifier'')])\<rparr>\<rparr>"
  by (simp add: run_defs)

text \<open>
  C6, as the code has it. Every failure is answered with a JSON object whose \<^verbatim>\<open>error\<close>
  field is one of a fixed set of strings: \<^verbatim>\<open>Route not found\<close> for a routing miss,
  \<^verbatim>\<open>Internal server error\<close> for a fault inside the gateway, \<^verbatim>\<open>Proxy error occurred\<close> for
  any failed dispatch of \<^verbatim>\<open>src/server.js\<close>, and \<^verbatim>\<open>Service Unavailable\<close>, \<^verbatim>\<open>Gateway Timeout\<close>
  or \<^verbatim>\<open>Proxy Error\<close> for a failed dispatch of the larger server. The first three bodies
  hold nothing else, and the 503 and 504 bodies do not depend on the error's message.
  The \<^verbatim>\<open>Proxy Error\<close> body carries the error's message and code as they are.
\<close>

theorem failure_bodies:
  "reply not_found =
     Sent \<lparr>res_status = 404, res_body = Json (JObject [(''error'', JString ''Route not found'')])\<rparr> \<and>
   global_error_handler err =
     \<lparr>res_status = 500, res_body = Json (JObject [(''error'', JString ''Internal server error'')])\<rparr> \<and>
   proxyOptions_onError err ts =
     \<lparr>res_status = 500, res_body = Json (JObject [(''error'', JString ''Proxy error occurred'')])\<rparr> \<and>
   (\<exists>fields. res_body (createProxyConfig_onError svc tgt err ts) = Json (JObject fields)) \<and>
   body_field ''error'' (createProxyConfig_onError svc tgt err ts) \<in>
     {Some (JString ''Service Unavailable''), Some (JString ''Gateway Timeout''),
      Some (JString ''Proxy Error'')} \<and>
   (err_code err = Some ''ECONNREFUSED'' \<or> err_code err = Some ''ETIMEDOUT'' \<longrightarrow>
      createProxyConfig_onError svc tgt (err\<lparr>err_message := txt\<rparr>) ts =
        createProxyConfig_onError svc tgt err ts) \<and>
   (err_code err \<noteq> Some ''ECONNREFUSED'' \<and> err_code err \<noteq> Some ''ETIMEDOUT'' \<longrightarrow>
      body_field ''message'' (createProxyConfig_onError svc tgt err ts) =
        Some (JString (err_message err)) \<and>
      body_field ''code'' (createProxyConfig_onError svc tgt err ts) =
        map_option JString (err_code err))"
  by (cases "err_code err") (simp_all add: reply_defs body_field_def)

theorem failure_bodies_witness:
  "err_code \<lparr>err_code = Some ''EPIPE'', err_message = ''write EPIPE''\<rparr> \<noteq> Some ''ECONNREFUSED'' \<and>
   err_code \<lparr>err_code = Some ''EPIPE'', err_message = ''write EPIPE''\<rparr> \<noteq> Some ''ETIMEDOUT'' \<and>
   body_field ''message''
     (createProxyConfig_onError ''classifier'' ''http://classifier.railway.internal:8000''
        \<lparr>err_code = Some ''EPIPE'', err_message = ''write EPIPE''\<rparr> ''2024-01-01T00:00:00.000Z'') =
     Some (JString ''write EPIPE'') \<and>
   err_code \<lparr>err_code = Some ''ETIMEDOUT'', err_message = ''connect ETIMEDOUT''\<rparr> = Some ''ETIMEDOUT'' \<and>
   createProxyConfig_onError ''classifier'' ''http://classifier.railway.internal:8000''
     (\<lparr>err_code = Some ''ETIMEDOUT'', err_message = ''connect ETIMEDOUT''\<rparr>
        \<lparr>err_message := ''other text''\<rparr>) ''2024-01-01T00:00:00.000Z'' =
   createProxyConfig_onError ''classifier'' ''http://classifier.railway.internal:8000''
     \<lparr>err_code = Some ''ETIMEDOUT'', err_message = ''connect ETIMEDOUT''\<rparr> ''2024-01-01T00:00:00.000Z''"
  using
    failure_bodies [of "\<lparr>err_code = Some ''EPIPE'', err_message = ''write EPIPE''\<rparr>"
      "''2024-01-01T00:00:00.000Z''" "''classifier''" "''http://classifier.railway.internal:8000''"]
    failure_bodies [of "\<lparr>err_code = Some ''ETIMEDOUT'', err_message = ''connect ETIMEDOUT''\<rparr>"
      "''2024-01-01T00:00:00.000Z''" "''classifier''" "''http://classifier.railway.internal:8000''"
      "''other text''"]
  by simp

section \<open>Routing\<close>





text \<open>
  The requests the first layers do not pass on to the routes: CORS answers every OPTIONS
  request itself, and an error of the body parser goes to the error-handling middleware.
\<close>

lemma options_answered_by_cors:
  "req_method r = ''OPTIONS'' \<Longrightarrow>
   handle w (app e) r = Inr \<lparr>calls = [], reply = Sent \<lparr>res_status = 204, res_body = Raw ''''\<rparr>\<rparr> \<and>
   handle w server_js_app r =
     Inr \<lparr>calls = [], reply = Sent \<lparr>res_status = 204, res_body = Raw ''''\<rparr>\<rparr>"
  by (simp add: handle_def app_def server_js_app_def cors_def)










text \<open>
  The claim C8 as stated fails: the path \<^verbatim>\<open>/health/\<close> matches no registered prefix and is
  neither \<^verbatim>\<open>/health\<close> nor \<^verbatim>\<open>/diagnostic\<close>, yet a GET for it is served by the health route.
\<close>

theorem unmatched_404_counterexample:
  "\<not> mount_match ''/api'' ''/health/'' \<and>
   ''/health/'' \<noteq> ''/health'' \<and>
   ''/health/'' \<noteq> ''/diagnostic'' \<and>
   handle world_answering (app env_unset)
       \<lparr>req_method = ''GET'', req_path = ''/health/'', req_json = None\<rparr> =
     Inr \<lparr>calls = [],
          reply =
            Sent \<lparr>res_status = 200,
                  res_body = Json (JObject
                    [(''status'', JString ''OK''),
                     (''timestamp'', JString ''2024-01-01T00:00:00.000Z''),
                     (''services'', JObject
                        [(''classifier'', JString ''http://classifier.railway.internal''),
                         (''parsercleaner'', JString ''http://parser_cleaner.railway.internal''),
                         (''responsegenerator'',
                            JString ''http://response_generator.railway.internal''),
                         (''collector'', JString ''lemlist-collector.railway.internal'')])])\<rparr>\<rparr>"
  by (simp add: run_defs)

text \<open>
  C8, as the code has it. In both servers, take a request that the CORS layer and the
  body parser pass on (its method is not OPTIONS, its body is accepted) and whose path can
  be decoded (\<open>uri_decodable\<close>). If the path matches none of the registered proxy mount
  paths, and the request is not a GET or HEAD request matched by the \<^verbatim>\<open>/health\<close> or
  \<^verbatim>\<open>/diagnostic\<close> route (these match without regard to the case of letters and with or
  without one trailing slash), the answer is exactly 404 with the body
  \<^verbatim>\<open>{error: 'Route not found'}\<close>, and nothing is sent to any backend.
\<close>

theorem unmatched_404:
  assumes "req_method r \<noteq> ''OPTIONS''"
    and "req_json r = None"
    and "uri_decodable (req_path r)"
    and "\<forall>p \<in> {''/api/classify'', ''/api/clean'', ''/api/generate'', ''/api/collect'',
              ''/api/companies'', ''/api''}. \<not> mount_match p (req_path r)"
    and "\<not> ((req_method r = ''GET'' \<or> req_method r = ''HEAD'') \<and>
            (route_match ''/health'' (req_path r) \<or> route_match ''/diagnostic'' (req_path r)))"
  shows
   "handle w (app e) r =
      Inr \<lparr>calls = [],
           reply =
             Sent \<lparr>res_status = 404,
                   res_body = Json (JObject [(''error'', JString ''Route not found'')])\<rparr>\<rparr> \<and>
    handle w server_js_app r =
      Inr \<lparr>calls = [],
           reply =
             Sent \<lparr>res_status = 404,
                   res_body = Json (JObject [(''error'', JString ''Route not found'')])\<rparr>\<rparr>"
  using assms
  by (auto simp: handle_def app_def server_js_app_def cors_def express_json_def not_found_def
      res_json_def json_object_def)

theorem unmatched_404_witness:
  "''POST'' \<noteq> ''OPTIONS'' \<and>
   uri_decodable ''/health'' \<and>
   \<not> mount_match ''/api/classify'' ''/health'' \<and>
   \<not> mount_match ''/api/clean'' ''/health'' \<and>
   \<not> mount_match ''/api/generate'' ''/health'' \<and>
   \<not> mount_match ''/api/collect'' ''/health'' \<and>
   \<not> mount_match ''/api/companies'' ''/health'' \<and>
   \<not> mount_match ''/api'' ''/health'' \<and>
   ''POST'' \<noteq> ''GET'' \<and> ''POST'' \<noteq> ''HEAD'' \<and>
   handle world_answering (app env_unset)
       \<lparr>req_method = ''POST'', req_path = ''/health'', req_json = None\<rparr> =
     Inr \<lparr>calls = [],
          reply =
            Sent \<lparr>res_status = 404,
                  res_body = Json (JObject [(''error'', JString ''Route not found'')])\<rparr>\<rparr>"
proof -
  let ?r = "\<lparr>req_method = ''POST'', req_path = ''/health'', req_json = None\<rparr>"
  have m: "\<not> mount_match ''/api/classify'' ''/health''" "\<not> mount_match ''/api/clean'' ''/health''"
    "\<not> mount_match ''/api/generate'' ''/health''" "\<not> mount_match ''/api/collect'' ''/health''"
    "\<not> mount_match ''/api/companies'' ''/health''" "\<not> mount_match ''/api'' ''/health''"
    by (simp_all add: match_defs)
  have d: "uri_decodable ''/health''"
    by (simp add: match_defs)
  have h1: "req_method ?r \<noteq> ''OPTIONS''" by simp
  have h2: "req_json ?r = None" by simp
  have h3: "uri_decodable (req_path ?r)" using d by simp
  have h4: "\<forall>p \<in> {''/api/classify'', ''/api/clean'', ''/api/generate'', ''/api/collect'',
        ''/api/companies'', ''/api''}. \<not> mount_match p (req_path ?r)"
    using m by simp
  have h5: "\<not> ((req_method ?r = ''GET'' \<or> req_method ?r = ''HEAD'') \<and>
       (route_match ''/health'' (req_path ?r) \<or> route_match ''/diagnostic'' (req_path ?r)))"
    by simp
  from unmatched_404 [OF h1 h2 h3 h4 h5, of world_answering env_unset] m d show ?thesis by simp
qed

text \<open>
  What happens to the requests left out above: an OPTIONS request is answered by the
  CORS layer and never reaches a route, and a request whose body the parser rejects, or
  which reaches the 404 layer with a path that cannot be decoded, is answered by the
  error-handling middleware.
\<close>

lemma rejected_body_500:
  "req_method r \<noteq> ''OPTIONS'' \<Longrightarrow> req_json r = Some err \<Longrightarrow>
   handle w (app e) r =
     Inr \<lparr>calls = [],
          reply =
            Sent \<lparr>res_status = 500,
                  res_body = Json (JObject [(''error'', JString ''Internal server error'')])\<rparr>\<rparr>"
  by (auto simp: handle_def app_def cors_def express_json_def global_error_handler_def
      res_json_def json_object_def)

lemma undecodable_path_500:
  "handle world_answering (app env_unset)
      \<lparr>req_method = ''GET'', req_path = ''/%'', req_json = None\<rparr> =
     Inr \<lparr>calls = [],
          reply =
            Sent \<lparr>res_status = 500,
                  res_body = Json (JObject [(''error'', JString ''Internal server error'')])\<rparr>\<rparr>"
  by (simp add: run_defs)

section \<open>The health and diagnostic routes\<close>



text \<open>
  C10. \<^verbatim>\<open>GET /diagnostic\<close> probes exactly three URLs, in this order: the collector's
  internal address with port 8000, with port 3000 and without a port, each at the path
  \<^verbatim>\<open>/status\<close>, with method GET and the timeout value 5000. The list is the same for every
  environment and every behaviour of the network.
\<close>

theorem diagnostic_probes:
  "handle w (app e) \<lparr>req_method = ''GET'', req_path = ''/diagnostic'', req_json = None\<rparr> =
     Inr (diagnostic w) \<and>
   calls (diagnostic w) =
     [Fetched ''http://lemlist-collector.railway.internal:8000/status'' ''GET'' 5000,
      Fetched ''http://lemlist-collector.railway.internal:3000/status'' ''GET'' 5000,
      Fetched ''http://lemlist-collector.railway.internal/status'' ''GET'' 5000]"
  by (simp add: handle_def app_def cors_def express_json_def to_lower_def diagnostic_calls)

theorem diagnostic_probes_witness:
  "map_sum id calls
     (handle world_answering
        (app \<lparr>CLASSIFIER_URL = Some ''http://10.0.0.1:9000'', PARSER_CLEANER_URL = None,
              RESPONSE_GENERATOR_URL = None, COLLECTOR_URL = Some ''http://10.0.0.2:9000''\<rparr>)
        \<lparr>req_method = ''GET'', req_path = ''/diagnostic'', req_json = None\<rparr>) =
   Inr [Fetched ''http://lemlist-collector.railway.internal:8000/status'' ''GET'' 5000,
        Fetched ''http://lemlist-collector.railway.internal:3000/status'' ''GET'' 5000,
        Fetched ''http://lemlist-collector.railway.internal/status'' ''GET'' 5000] \<and>
   map_sum id calls
     (handle (world_failing \<lparr>err_code = Some ''ENOTFOUND'', err_message = ''getaddrinfo ENOTFOUND''\<rparr>)
        (app env_unset) \<lparr>req_method = ''GET'', req_path = ''/diagnostic'', req_json = None\<rparr>) =
   Inr [Fetched ''http://lemlist-collector.railway.internal:8000/status'' ''GET'' 5000,
        Fetched ''http://lemlist-collector.railway.internal:3000/status'' ''GET'' 5000,
        Fetched ''http://lemlist-collector.railway.internal/status'' ''GET'' 5000]"
  using
    diagnostic_probes
      [of world_answering
        "\<lparr>CLASSIFIER_URL = Some ''http://10.0.0.1:9000'', PARSER_CLEANER_URL = None,
          RESPONSE_GENERATOR_URL = None, COLLECTOR_URL = Some ''http://10.0.0.2:9000''\<rparr>"]
    diagnostic_probes
      [of "world_failing \<lparr>err_code = Some ''ENOTFOUND'', err_message = ''getaddrinfo ENOTFOUND''\<rparr>"
        env_unset]
  by simp

end
